theory Spec2Isabelle
  imports Complex_Main "HOL-Library.Word" "HOL-Library.Sublist"
begin

section \<open>JavaScript values\<close>

text \<open>
  A JavaScript string is a sequence of 16-bit code units; \<open>length\<close> counts them, as
  \<^verbatim>\<open>String.prototype.length\<close> and \<^verbatim>\<open>padStart\<close> do. \<open>js\<close> embeds an ASCII literal.
  The two dashes of the source, the sentinel U+2014 and the U+2013 of the representative
  label, are one code unit each.
\<close>

type_synonym jsstring = "16 word list"

definition js :: "string \<Rightarrow> jsstring" where
  "js s = map of_char s"

definition em_dash :: jsstring where
  "em_dash = [0x2014]"

definition en_dash :: jsstring where
  "en_dash = [0x2013]"

text \<open>
  Numbers are the finite values, the two infinities and NaN. Finite values are real
  numbers: the model does not round to 53 bits and does not tell \<open>-0\<close> from \<open>0\<close>.
\<close>

datatype jsnum = Fin real | PosInf | NegInf | NaN

text \<open>
  The values a feature property or a React state cell holds in this program.
  \<open>JUndefined\<close> is what reading a missing key gives.
\<close>

datatype jsval = JUndefined | JNull | JBool bool | JNum jsnum | JStr jsstring

text \<open>\<^verbatim>\<open>if (v)\<close>, \<^verbatim>\<open>v || w\<close>, \<^verbatim>\<open>v ? a : b\<close>: the falsy values are undefined, null, false, 0, NaN and "".\<close>

fun truthy :: "jsval \<Rightarrow> bool" where
  "truthy JUndefined = False"
| "truthy JNull = False"
| "truthy (JBool b) = b"
| "truthy (JNum (Fin x)) = (x \<noteq> 0)"
| "truthy (JNum NaN) = False"
| "truthy (JNum PosInf) = True"
| "truthy (JNum NegInf) = True"
| "truthy (JStr s) = (s \<noteq> [])"

definition js_or :: "jsval \<Rightarrow> jsval \<Rightarrow> jsval" where
  "js_or v w = (if truthy v then v else w)"

fun isFinite :: "jsnum \<Rightarrow> bool" where
  "isFinite (Fin x) = True"
| "isFinite PosInf = False"
| "isFinite NegInf = False"
| "isFinite NaN = False"

section \<open>Features\<close>

text \<open>
  \<^verbatim>\<open>(f.properties || {}) as Record<string, any>\<close>: a property bag is a finite map; a null
  bag is the empty map, and \<open>get_prop\<close> reads a key, \<open>JUndefined\<close> when it is missing.
\<close>

type_synonym props = "jsstring \<rightharpoonup> jsval"

definition get_prop :: "props \<Rightarrow> string \<Rightarrow> jsval" where
  "get_prop ps k = (case ps (js k) of None \<Rightarrow> JUndefined | Some v \<Rightarrow> v)"

text \<open>
  What the handlers read of a rendered feature: \<^verbatim>\<open>feature.layer?.id\<close> (\<open>None\<close> when the
  feature has no layer), \<^verbatim>\<open>f.source\<close>, the properties and the geometry. The geometry is
  only handed to Turf, so its type is left open.
\<close>

record 'g feature =
  layer_id :: "jsstring option"
  source :: jsstring
  properties :: props
  geometry :: 'g

section \<open>Layer priority (generalClickHandler, first half)\<close>

text \<open>\<^verbatim>\<open>Array.prototype.indexOf\<close>: the first index holding the element, or \<open>-1\<close>.\<close>

fun indexOf_from :: "'a list \<Rightarrow> 'a \<Rightarrow> int \<Rightarrow> int" where
  "indexOf_from [] x i = - 1"
| "indexOf_from (y # ys) x i = (if y = x then i else indexOf_from ys x (i + 1))"

definition indexOf :: "'a list \<Rightarrow> 'a \<Rightarrow> int" where
  "indexOf xs x = indexOf_from xs x 0"

definition layerPriority :: "jsstring list" where
  "layerPriority =
     [js ''congressional-districts-fill'',
      js ''congressional-districts-line'',
      js ''roadless-fill'',
      js ''oregon-trails-line'',
      js ''pct-line'']"

text \<open>
  The body of \<^verbatim>\<open>for (const feature of features)\<close> on the pair
  \<open>(highestPriorityFeature, highestPriorityIndex)\<close>: a feature with no layer id or an
  empty one is skipped, and a feature replaces the current one only when its index is
  strictly greater.
\<close>

definition priority_step ::
  "'g feature \<Rightarrow> 'g feature option \<times> int \<Rightarrow> 'g feature option \<times> int" where
  "priority_step f st =
     (case layer_id f of
        None \<Rightarrow> st
      | Some layerId \<Rightarrow>
          if layerId \<noteq> [] then
            (let priorityIndex = indexOf layerPriority layerId
             in if priorityIndex > snd st then (Some f, priorityIndex) else st)
          else st)"

fun priority_loop ::
  "'g feature list \<Rightarrow> 'g feature option \<times> int \<Rightarrow> 'g feature option \<times> int" where
  "priority_loop [] st = st"
| "priority_loop (f # fs) st = priority_loop fs (priority_step f st)"

text \<open>The loop starts from \<^verbatim>\<open>null\<close> and \<open>-1\<close>.\<close>

definition highestPriorityFeature :: "'g feature list \<Rightarrow> 'g feature option" where
  "highestPriorityFeature features = fst (priority_loop features (None, - 1))"

text \<open>
  For stating the properties: the index of a feature's layer in the order (\<open>-1\<close> when the
  feature has no layer or an unlisted one), and whether the layer is one of the five.
\<close>

definition layerIndex :: "'g feature \<Rightarrow> int" where
  "layerIndex f = (case layer_id f of None \<Rightarrow> - 1 | Some l \<Rightarrow> indexOf layerPriority l)"

definition listed :: "'g feature \<Rightarrow> bool" where
  "listed f = (case layer_id f of None \<Rightarrow> False | Some l \<Rightarrow> l \<in> set layerPriority)"

section \<open>String operations\<close>

text \<open>\<^verbatim>\<open>s.includes(sub)\<close>: \<open>sub\<close> occurs in \<open>s\<close> as a contiguous block, compared unit by unit.\<close>

fun js_includes :: "'a list \<Rightarrow> 'a list \<Rightarrow> bool" where
  "js_includes [] sub = (sub = [])"
| "js_includes (c # cs) sub = (take (length sub) (c # cs) = sub \<or> js_includes cs sub)"

text \<open>
  \<^verbatim>\<open>s.split(sep)\<close>: scan from the left, cut at each occurrence of the separator and go on
  behind it. \<open>cur\<close> is the piece being collected. An empty separator splits into code
  units.
\<close>

function split_from :: "'a list \<Rightarrow> 'a list \<Rightarrow> 'a list \<Rightarrow> 'a list list" where
  "split_from sep cur [] = [cur]"
| "split_from sep cur (c # cs) =
     (if sep \<noteq> [] \<and> take (length sep) (c # cs) = sep
      then cur # split_from sep [] (drop (length sep) (c # cs))
      else split_from sep (cur @ [c]) cs)"
  by pat_completeness auto
termination
  by (relation "measure (\<lambda>(sep, cur, rest). length rest)") auto

definition js_split :: "'a list \<Rightarrow> 'a list \<Rightarrow> 'a list list" where
  "js_split s sep = (if sep = [] then map (\<lambda>c. [c]) s else split_from sep [] s)"

text \<open>\<^verbatim>\<open>s.padStart(n, pad)\<close>: the filler is \<open>pad\<close> repeated and cut to the missing length.\<close>

definition padStart :: "'a list \<Rightarrow> nat \<Rightarrow> 'a list \<Rightarrow> 'a list" where
  "padStart s n pad =
     (if n \<le> length s \<or> pad = [] then s
      else take (n - length s) (concat (replicate (n - length s) pad)) @ s)"

section \<open>Number formatting\<close>

text \<open>
  \<^verbatim>\<open>x.toLocaleString("en-US", {maximumFractionDigits: d})\<close> on a number: round half away
  from zero to \<open>d\<close> decimals, group the integer digits in threes with commas, drop trailing
  zeros of the fraction. \<^verbatim>\<open>toLocaleString("en-US")\<close> has \<open>d = 3\<close>.
\<close>

definition digit_unit :: "nat \<Rightarrow> 16 word" where
  "digit_unit d = of_nat (48 + d)"

function digits :: "nat \<Rightarrow> jsstring" where
  "digits n = (if n < 10 then [digit_unit n] else digits (n div 10) @ [digit_unit (n mod 10)])"
  by pat_completeness auto
termination
  by (relation "measure id") auto

declare digits.simps [simp del]

function group3 :: "jsstring \<Rightarrow> jsstring" where
  "group3 ds =
     (if length ds \<le> 3 then ds
      else group3 (take (length ds - 3) ds) @ js '','' @ drop (length ds - 3) ds)"
  by pat_completeness auto
termination
  by (relation "measure length") auto

declare group3.simps [simp del]

definition strip_zeros :: "jsstring \<Rightarrow> jsstring" where
  "strip_zeros ds = rev (dropWhile (\<lambda>c. c = digit_unit 0) (rev ds))"

definition format_decimal :: "nat \<Rightarrow> real \<Rightarrow> jsstring" where
  "format_decimal d x =
     (let n = nat \<lfloor>\<bar>x\<bar> * 10 ^ d + 1 / 2\<rfloor>;
          whole = group3 (digits (n div 10 ^ d));
          frac = strip_zeros (padStart (digits (n mod 10 ^ d)) d (js ''0''))
      in (if x < 0 then js ''-'' else []) @ whole @ (if frac = [] then [] else js ''.'' @ frac))"

fun num_toLocaleString :: "nat \<Rightarrow> jsnum \<Rightarrow> jsstring" where
  "num_toLocaleString d (Fin x) = format_decimal d x"
| "num_toLocaleString d PosInf = [0x221E]"
| "num_toLocaleString d NegInf = js ''-'' @ [0x221E]"
| "num_toLocaleString d NaN = js ''NaN''"

datatype js_error = TypeError

text \<open>
  \<^verbatim>\<open>v.toLocaleString(...)\<close> on a property value: a number is formatted, a string or a boolean
  gives its own text (\<^verbatim>\<open>Object.prototype.toLocaleString\<close>), undefined and null have no
  method.
\<close>

fun toLocaleString :: "nat \<Rightarrow> jsval \<Rightarrow> js_error + jsstring" where
  "toLocaleString d (JNum n) = Inr (num_toLocaleString d n)"
| "toLocaleString d (JStr s) = Inr s"
| "toLocaleString d (JBool b) = Inr (if b then js ''true'' else js ''false'')"
| "toLocaleString d JUndefined = Inl TypeError"
| "toLocaleString d JNull = Inl TypeError"

text \<open>
  A value inside a template literal. How a number prints (\<^verbatim>\<open>Number.prototype.toString\<close>) is
  the engine's; it is the parameter \<open>numToString\<close>.
\<close>

fun template :: "(jsnum \<Rightarrow> jsstring) \<Rightarrow> jsval \<Rightarrow> jsstring" where
  "template numToString (JStr s) = s"
| "template numToString (JNum n) = numToString n"
| "template numToString (JBool b) = (if b then js ''true'' else js ''false'')"
| "template numToString JNull = js ''null''"
| "template numToString JUndefined = js ''undefined''"

text \<open>Multiplying and dividing a number by a positive finite constant.\<close>

fun div_by :: "jsnum \<Rightarrow> real \<Rightarrow> jsnum" where
  "div_by (Fin x) c = Fin (x / c)"
| "div_by PosInf c = PosInf"
| "div_by NegInf c = NegInf"
| "div_by NaN c = NaN"

fun times_by :: "jsnum \<Rightarrow> real \<Rightarrow> jsnum" where
  "times_by (Fin x) c = Fin (x * c)"
| "times_by PosInf c = PosInf"
| "times_by NegInf c = NegInf"
| "times_by NaN c = NaN"

section \<open>The area popup (onClick)\<close>


section \<open>The trail popup (onTrailClick)\<close>

record trail_popup =
  trailName :: jsval
  trailInfo :: jsval
  lengthTxt :: jsstring

text \<open>
  Name and description. \<^verbatim>\<open>props.TRAIL_NAME.includes\<close> exists on a string only; on any
  other truthy value the call throws.
\<close>

definition trailIdentity :: "jsstring \<Rightarrow> props \<Rightarrow> js_error + jsval \<times> jsval" where
  "trailIdentity sourceId ps =
     (if sourceId = js ''pct'' then
        Inr (JStr (js ''Pacific Crest Trail - Oregon''),
             JStr (js ''A long-distance hiking trail spanning the length of Oregon''))
      else if sourceId = js ''oregon-trails'' then
        (let name = js_or (get_prop ps ''TRAIL_NAME'')
                      (js_or (get_prop ps ''NAME'')
                         (js_or (get_prop ps ''TRAIL'') (JStr (js ''Oregon Trail''))));
             info = js_or (get_prop ps ''DESCRIPTION'') (JStr (js ''A trail in Oregon''))
         in if truthy (get_prop ps ''TRAIL_NAME'') then
              (case get_prop ps ''TRAIL_NAME'' of
                 JStr s \<Rightarrow>
                   if js_includes s (js ''PACIFIC CREST'') then
                     Inr (JStr (js ''Pacific Crest Trail - Oregon Section''),
                          JStr (js ''A long-distance hiking trail spanning from Canada to Mexico''))
                   else Inr (name, info)
               | _ \<Rightarrow> Inl TypeError)
            else Inr (name, info))
      else Inr (JStr (js ''Unknown Trail''), JStr []))"

text \<open>
  The length line. \<^verbatim>\<open>turf.length\<close> is the parameter \<open>turf_length\<close>. The first branch reads
  the pre-calculated \<^verbatim>\<open>GIS_MILES\<close>, the second is the fixed text of the \<^verbatim>\<open>pct\<close> source,
  the third measures the geometry.
\<close>

definition trailLengthTxt ::
  "('g \<Rightarrow> js_error + jsnum) \<Rightarrow> jsstring \<Rightarrow> props \<Rightarrow> 'g \<Rightarrow> js_error + jsstring" where
  "trailLengthTxt turf_length sourceId ps g =
     (if sourceId = js ''oregon-trails'' \<and> truthy (get_prop ps ''GIS_MILES'') then
        (case toLocaleString 1 (get_prop ps ''GIS_MILES'') of
           Inl e \<Rightarrow> Inl e
         | Inr t \<Rightarrow> Inr (t @ js '' miles''))
      else if sourceId = js ''pct'' then Inr (js ''456.5 miles (of 2,650 miles total)'')
      else
        (case turf_length g of
           Inl e \<Rightarrow> Inr em_dash
         | Inr lengthMeters \<Rightarrow>
             (let lengthMiles = times_by lengthMeters 0.000621371
              in if isFinite lengthMiles
                 then Inr (num_toLocaleString 1 lengthMiles @ js '' miles'')
                 else Inr em_dash)))"

definition onTrailClick ::
  "('g \<Rightarrow> js_error + jsnum) \<Rightarrow> 'g feature \<Rightarrow> js_error + trail_popup" where
  "onTrailClick turf_length f =
     (case trailIdentity (source f) (properties f) of
        Inl e \<Rightarrow> Inl e
      | Inr (name, info) \<Rightarrow>
          (case trailLengthTxt turf_length (source f) (properties f) (geometry f) of
             Inl e \<Rightarrow> Inl e
           | Inr txt \<Rightarrow> Inr \<lparr>trailName = name, trailInfo = info, lengthTxt = txt\<rparr>))"

section \<open>The district popup and the selection (generalClickHandler, second half)\<close>

text \<open>
  The popup markup is a fixed frame around four interpolated texts; the record holds
  the four.
\<close>

record district_popup =
  districtNumberTxt :: jsstring
  formattedNameTxt :: jsstring
  totalAcresTxt :: jsstring
  roadlessAcresTxt :: jsstring

text \<open>\<^verbatim>\<open>v ? v.toLocaleString("en-US", ...) : the dash\<close> with \<open>d\<close> fraction digits.\<close>

definition acresField :: "nat \<Rightarrow> jsval \<Rightarrow> js_error + jsstring" where
  "acresField d v = (if truthy v then toLocaleString d v else Inr em_dash)"

text \<open>
  "Last, First" to "First Last". \<^verbatim>\<open>split\<close> exists on a string only: any other value that
  is not the fallback text throws.
\<close>

definition formattedRepresentativeName :: "jsval \<Rightarrow> js_error + jsstring" where
  "formattedRepresentativeName representativeNameRaw =
     (if representativeNameRaw \<noteq> JStr (js ''Unknown Representative'') then
        (case representativeNameRaw of
           JStr s \<Rightarrow>
             (let nameParts = js_split s (js '', '')
              in if length nameParts = 2
                 then Inr (nameParts ! 1 @ js '' '' @ nameParts ! 0)
                 else Inr s)
         | _ \<Rightarrow> Inl TypeError)
      else Inr (js ''Unknown Representative''))"

text \<open>\<^verbatim>\<open>districtNumber.padStart(2, "0")\<close>: a method of strings only.\<close>

definition paddedDistrict :: "jsval \<Rightarrow> js_error + jsstring" where
  "paddedDistrict districtNumber =
     (case districtNumber of
        JStr s \<Rightarrow> Inr (padStart s 2 (js ''0''))
      | _ \<Rightarrow> Inl TypeError)"

definition districtPopup :: "(jsnum \<Rightarrow> jsstring) \<Rightarrow> props \<Rightarrow> js_error + district_popup" where
  "districtPopup numToString ps =
     (let representativeNameRaw =
            js_or (get_prop ps ''LISTING_NA'') (JStr (js ''Unknown Representative''));
          districtNumber = js_or (get_prop ps ''DISTRICT'') (JStr (js ''Unknown''));
          party = js_or (get_prop ps ''Party'') (JStr (js ''Unknown''))
      in case acresField 3 (get_prop ps ''Acres'') of
           Inl e \<Rightarrow> Inl e
         | Inr totalAcres \<Rightarrow>
        (case acresField 0 (get_prop ps ''SUM_RoadlessAreasAcres'') of
           Inl e \<Rightarrow> Inl e
         | Inr roadlessAcres \<Rightarrow>
        (case formattedRepresentativeName representativeNameRaw of
           Inl e \<Rightarrow> Inl e
         | Inr rep \<Rightarrow>
        (case paddedDistrict districtNumber of
           Inl e \<Rightarrow> Inl e
         | Inr padded \<Rightarrow>
             Inr \<lparr>districtNumberTxt = template numToString districtNumber,
                  formattedNameTxt =
                    js ''Rep. '' @ rep @ js '' ('' @ template numToString party
                      @ en_dash @ js ''OR-'' @ padded @ js '')'',
                  totalAcresTxt = totalAcres,
                  roadlessAcresTxt = roadlessAcres\<rparr>))))"

text \<open>
  The component state is the one cell \<^verbatim>\<open>selectedDistrictId\<close>, \<open>JNull\<close> at mount. The click
  handler calls the setter once, before it builds the popup, so the new state does not
  depend on whether the popup code throws. The second component of the result is
  \<open>Inr (Some p)\<close> when the district popup is shown, \<open>Inr None\<close> when the handler shows
  none, \<open>Inl e\<close> when it throws. The \<^verbatim>\<open>console.log\<close> calls and the feature id, which is
  only logged, are left out.
\<close>

record component =
  selectedDistrictId :: jsval

definition isDistrictLayer :: "'g feature \<Rightarrow> bool" where
  "isDistrictLayer f =
     (layer_id f = Some (js ''congressional-districts-line'') \<or>
      layer_id f = Some (js ''congressional-districts-fill''))"

definition generalClickHandler ::
  "(jsnum \<Rightarrow> jsstring) \<Rightarrow> 'g feature list \<Rightarrow> component \<Rightarrow>
     component \<times> (js_error + district_popup option)" where
  "generalClickHandler numToString features c =
     (case highestPriorityFeature features of
        None \<Rightarrow> (c\<lparr>selectedDistrictId := JNull\<rparr>, Inr None)
      | Some f \<Rightarrow>
          if isDistrictLayer f then
            (let selectedDistrictNumber = js_or (get_prop (properties f) ''DISTRICT'') JNull
             in (c\<lparr>selectedDistrictId := selectedDistrictNumber\<rparr>,
                 case districtPopup numToString (properties f) of
                   Inl e \<Rightarrow> Inl e
                 | Inr p \<Rightarrow> Inr (Some p)))
          else (c\<lparr>selectedDistrictId := JNull\<rparr>, Inr None))"

text \<open>\<^verbatim>\<open>popup.on("close", () => setSelectedDistrictId(null))\<close>.\<close>

definition popupClose :: "component \<Rightarrow> component" where
  "popupClose c = c\<lparr>selectedDistrictId := JNull\<rparr>"

section \<open>District styling\<close>

text \<open>
  A paint value is a constant or the expression
  \<^verbatim>\<open>["case", ["==", ["get", key], value], a, b]\<close>.
\<close>

datatype paint = PConst real | PCaseEq jsstring jsval real real

text \<open>
  What the handlers use of the map: the zoom, which layers exist (\<^verbatim>\<open>getLayer\<close>) and the
  paint properties set so far, by layer and property name.
\<close>

record mapbox =
  zoom :: real
  layers :: "jsstring set"
  paint_props :: "jsstring \<times> jsstring \<rightharpoonup> paint"

definition setPaintProperty :: "string \<Rightarrow> string \<Rightarrow> paint \<Rightarrow> mapbox \<Rightarrow> mapbox" where
  "setPaintProperty layer name v m = m\<lparr>paint_props := (paint_props m)((js layer, js name) \<mapsto> v)\<rparr>"

definition getLayer :: "mapbox \<Rightarrow> string \<Rightarrow> bool" where
  "getLayer m layer = (js layer \<in> layers m)"

definition highlight :: "jsval \<Rightarrow> real \<Rightarrow> real \<Rightarrow> paint" where
  "highlight selected a b = PCaseEq (js ''DISTRICT'') selected a b"

text \<open>The effect that runs when \<^verbatim>\<open>selectedDistrictId\<close> changes, on a ready map.\<close>

definition stylingEffect :: "jsval \<Rightarrow> mapbox \<Rightarrow> mapbox" where
  "stylingEffect selected m =
     (if zoom m \<le> 8 then
        (let m1 =
               (if getLayer m ''congressional-districts-fill'' then
                  (if truthy selected
                   then setPaintProperty ''congressional-districts-fill'' ''fill-opacity''
                          (highlight selected 0.4 0.1) m
                   else setPaintProperty ''congressional-districts-fill'' ''fill-opacity''
                          (PConst 0.1) m)
                else m)
         in if getLayer m1 ''congressional-districts-line'' then
              (if truthy selected
               then setPaintProperty ''congressional-districts-line'' ''line-width''
                      (highlight selected 2.5 1.5)
                      (setPaintProperty ''congressional-districts-line'' ''line-opacity''
                         (highlight selected 1.0 0.8) m1)
               else setPaintProperty ''congressional-districts-line'' ''line-width'' (PConst 1.5)
                      (setPaintProperty ''congressional-districts-line'' ''line-opacity''
                         (PConst 0.8) m1))
            else m1)
      else
        (let m1 =
               (if getLayer m ''congressional-districts-fill''
                then setPaintProperty ''congressional-districts-fill'' ''fill-opacity''
                       (PConst 0.1) m
                else m)
         in if getLayer m1 ''congressional-districts-line''
            then setPaintProperty ''congressional-districts-line'' ''line-width'' (PConst 1.5)
                   (setPaintProperty ''congressional-districts-line'' ''line-opacity''
                      (PConst 0.8) m1)
            else m1))"

text \<open>The zoom listener, with the \<^verbatim>\<open>selectedDistrictId\<close> of its closure.\<close>

definition handleZoomChange :: "jsval \<Rightarrow> mapbox \<Rightarrow> mapbox" where
  "handleZoomChange selected m =
     (if zoom m \<le> 8 then
        (if truthy selected then
           (let m1 =
                  (if getLayer m ''congressional-districts-fill''
                   then setPaintProperty ''congressional-districts-fill'' ''fill-opacity''
                          (highlight selected 0.4 0.1) m
                   else m)
            in if getLayer m1 ''congressional-districts-line''
               then setPaintProperty ''congressional-districts-line'' ''line-width''
                      (highlight selected 2.5 1.5)
                      (setPaintProperty ''congressional-districts-line'' ''line-opacity''
                         (highlight selected 1.0 0.8) m1)
               else m1)
         else
           (let m1 =
                  (if getLayer m ''congressional-districts-fill''
                   then setPaintProperty ''congressional-districts-fill'' ''fill-opacity''
                          (PConst 0.1) m
                   else m)
            in if getLayer m1 ''congressional-districts-line''
               then setPaintProperty ''congressional-districts-line'' ''line-width'' (PConst 1.5)
                      (setPaintProperty ''congressional-districts-line'' ''line-opacity''
                         (PConst 0.8) m1)
               else m1))
      else
        (let m1 =
               (if getLayer m ''congressional-districts-fill''
                then setPaintProperty ''congressional-districts-fill'' ''fill-opacity''
                       (PConst 0.1) m
                else m)
         in if getLayer m1 ''congressional-districts-line''
            then setPaintProperty ''congressional-districts-line'' ''line-width'' (PConst 1.5)
                   (setPaintProperty ''congressional-districts-line'' ''line-opacity''
                      (PConst 0.8) m1)
            else m1))"

text \<open>
  Modelled from the spec: the rendering engine, which is not part of this repository,
  evaluates an installed paint value per feature, "using an equality predicate against
  the stored \<open>d\<close>". \<^verbatim>\<open>["get", key]\<close> of a missing key is null.
\<close>

definition paintAt :: "paint \<Rightarrow> props \<Rightarrow> real" where
  "paintAt p ps =
     (case p of
        PConst c \<Rightarrow> c
      | PCaseEq key v a b \<Rightarrow>
          if (case ps key of None \<Rightarrow> JNull | Some w \<Rightarrow> w) = v then a else b)"

text \<open>The paint value a layer property has after the handlers ran.\<close>

definition installed :: "mapbox \<Rightarrow> string \<Rightarrow> string \<Rightarrow> paint option" where
  "installed m layer name = paint_props m (js layer, js name)"

section \<open>Definitions for the proofs and the examples\<close>

text \<open>
  The invariant of the priority loop after the features \<open>fs\<close>: either nothing has been
  taken and no feature so far is of a listed layer, or the pair holds the first feature
  of the greatest layer index so far.
\<close>

definition loop_inv :: "'g feature list \<Rightarrow> 'g feature option \<times> int \<Rightarrow> bool" where
  "loop_inv fs st =
     ((fst st = None \<and> snd st = - 1 \<and> (\<forall>f\<in>set fs. \<not> listed f)) \<or>
      (\<exists>i<length fs. fst st = Some (fs ! i) \<and> snd st = layerIndex (fs ! i) \<and> listed (fs ! i) \<and>
          (\<forall>j<length fs. layerIndex (fs ! j) \<le> layerIndex (fs ! i)) \<and>
          (\<forall>j<i. layerIndex (fs ! j) < layerIndex (fs ! i))))"

text \<open>A feature of a named layer and source with the given properties, for the examples.\<close>

definition example_feature :: "string \<Rightarrow> string \<Rightarrow> (string \<times> jsval) list \<Rightarrow> unit feature" where
  "example_feature layer src kvs =
     \<lparr>layer_id = Some (js layer), source = js src,
      properties = map_of (map (\<lambda>(k, v). (js k, v)) kvs), geometry = ()\<rparr>"

text \<open>A value that is a string, or is falsy and so replaced by a fallback string.\<close>

fun stringOrFalsy :: "jsval \<Rightarrow> bool" where
  "stringOrFalsy (JStr s) = True"
| "stringOrFalsy v = (\<not> truthy v)"

text \<open>The example district features: one with all five properties, one without \<open>DISTRICT\<close>.\<close>

definition example_district :: "unit feature" where
  "example_district =
     example_feature ''congressional-districts-fill'' ''congressional-districts''
       [(''DISTRICT'', JStr (js ''4'')), (''LISTING_NA'', JStr (js ''Smith, Jane'')),
        (''Party'', JStr (js ''D'')), (''Acres'', JNum (Fin 0)),
        (''SUM_RoadlessAreasAcres'', JStr [])]"

definition example_unnumbered_district :: "unit feature" where
  "example_unnumbered_district =
     example_feature ''congressional-districts-fill'' ''congressional-districts''
       [(''LISTING_NA'', JStr (js ''Smith, Jane'')), (''Party'', JStr (js ''D''))]"

text \<open>A map at a given zoom that has the two district layers and no paint set yet.\<close>

definition example_map :: "real \<Rightarrow> mapbox" where
  "example_map z =
     \<lparr>zoom = z,
      layers = {js ''congressional-districts-fill'', js ''congressional-districts-line''},
      paint_props = Map.empty\<rparr>"

text \<open>An \<^verbatim>\<open>oregon-trails\<close> feature whose data carries \<^verbatim>\<open>GIS_MILES\<close>.\<close>

definition example_trail :: "unit feature" where
  "example_trail =
     example_feature ''oregon-trails-line'' ''oregon-trails''
       [(''TRAIL_NAME'', JStr (js ''EAGLE CREEK'')), (''GIS_MILES'', JNum (Fin 12.3))]"

section \<open>Literals\<close>

lemma unat_of_char_word16: "unat (of_char c :: 16 word) = of_char c"
proof -
  have lt: "(of_char c :: nat) < 65536"
    using nat_of_char_less_256 [of c] by linarith
  have "unat (of_nat (of_char c) :: 16 word) = of_char c mod 2 ^ LENGTH(16)"
    by (rule unat_of_nat)
  also have "\<dots> = of_char c"
    using lt by simp
  finally show ?thesis
    by (simp only: of_nat_of_char)
qed

lemma of_char_word16_inj: "((of_char c :: 16 word) = of_char d) = (c = d)"
proof
  assume "(of_char c :: 16 word) = of_char d"
  then have "unat (of_char c :: 16 word) = unat (of_char d :: 16 word)"
    by (rule arg_cong)
  then show "c = d"
    by (simp only: unat_of_char_word16 of_char_eq_iff)
qed simp

lemma js_eq_iff [simp]: "(js a = js b) = (a = b)"
proof -
  have "inj (of_char :: char \<Rightarrow> 16 word)"
    by (rule injI) (simp only: of_char_word16_inj)
  then show ?thesis
    unfolding js_def by (rule inj_map_eq_map)
qed

lemma js_eq_Nil [simp]: "(js s = []) = (s = [])"
  by (simp add: js_def)

lemma Nil_eq_js [simp]: "([] = js s) = (s = [])"
  by (simp add: js_def)

lemma js_append: "js (a @ b) = js a @ js b"
  by (simp add: js_def)

section \<open>The resolver\<close>

lemma indexOf_from_range:
  "indexOf_from xs x i = - 1 \<or> (i \<le> indexOf_from xs x i \<and> indexOf_from xs x i < i + int (length xs))"
  by (induction xs x i rule: indexOf_from.induct) auto

lemma indexOf_from_absent: "0 \<le> i \<Longrightarrow> (indexOf_from xs x i = - 1) = (x \<notin> set xs)"
proof (induction xs x i rule: indexOf_from.induct)
  case (1 x i)
  then show ?case by simp
next
  case (2 y ys x i)
  then show ?case by auto
qed

lemma indexOf_absent: "(indexOf xs x = - 1) = (x \<notin> set xs)"
  unfolding indexOf_def by (rule indexOf_from_absent) simp

lemma indexOf_ge: "- 1 \<le> indexOf xs x"
  unfolding indexOf_def using indexOf_from_range [of xs x 0] by auto

lemma indexOf_nonneg: "(0 \<le> indexOf xs x) = (x \<in> set xs)"
  using indexOf_absent [of xs x] indexOf_ge [of xs x] by auto

lemma layerIndex_ge: "- 1 \<le> layerIndex f"
  by (simp add: layerIndex_def indexOf_ge split: option.split)

lemma layerIndex_listed: "(0 \<le> layerIndex f) = listed f"
  by (simp add: layerIndex_def listed_def indexOf_nonneg split: option.split)

lemma layerIndex_unlisted: "(layerIndex f = - 1) = (\<not> listed f)"
  using layerIndex_ge [of f] layerIndex_listed [of f] by auto

lemma empty_not_listed: "[] \<notin> set layerPriority"
  by (simp add: layerPriority_def)

text \<open>The loop body, in terms of the layer index: the empty layer id is not in the order.\<close>

lemma priority_step_eq:
  assumes "- 1 \<le> snd st"
  shows "priority_step f st = (if layerIndex f > snd st then (Some f, layerIndex f) else st)"
proof (cases "layer_id f")
  case None
  with assms show ?thesis by (simp add: priority_step_def layerIndex_def)
next
  case (Some l)
  show ?thesis
  proof (cases "l = []")
    case True
    have "indexOf layerPriority ([] :: jsstring) = - 1"
      using empty_not_listed by (simp only: indexOf_absent simp_thms)
    with Some True assms show ?thesis
      by (simp add: priority_step_def layerIndex_def)
  next
    case False
    with Some show ?thesis
      by (simp add: priority_step_def layerIndex_def Let_def)
  qed
qed

lemma priority_loop_append:
  "priority_loop (fs @ gs) st = priority_loop gs (priority_loop fs st)"
  by (induction fs arbitrary: st) simp_all

lemma loop_inv_init: "loop_inv [] (None, - 1)"
  by (simp add: loop_inv_def)

lemma loop_inv_lower: "loop_inv fs st \<Longrightarrow> - 1 \<le> snd st"
  using layerIndex_ge by (auto simp: loop_inv_def)

lemma loop_inv_step:
  assumes inv: "loop_inv fs st"
  shows "loop_inv (fs @ [f]) (priority_step f st)"
proof (cases "snd st < layerIndex f")
  case True
  have lower: "- 1 \<le> snd st" using inv by (rule loop_inv_lower)
  then have step: "priority_step f st = (Some f, layerIndex f)"
    using True by (simp add: priority_step_eq)
  have lf: "listed f"
    using True lower layerIndex_listed [of f] by simp
  have below: "\<forall>j<length fs. layerIndex (fs ! j) < layerIndex f"
  proof (intro allI impI)
    fix j assume j: "j < length fs"
    from inv show "layerIndex (fs ! j) < layerIndex f"
      unfolding loop_inv_def
    proof (elim disjE conjE exE)
      assume "snd st = - 1" "\<forall>f\<in>set fs. \<not> listed f"
      then have "layerIndex (fs ! j) = - 1"
        using j by (simp add: layerIndex_unlisted)
      then show ?thesis using True lower by simp
    next
      fix i
      assume "snd st = layerIndex (fs ! i)" "\<forall>j<length fs. layerIndex (fs ! j) \<le> layerIndex (fs ! i)"
      then show ?thesis using True j by fastforce
    qed
  qed
  have "length fs < length (fs @ [f]) \<and>
        fst (priority_step f st) = Some ((fs @ [f]) ! length fs) \<and>
        snd (priority_step f st) = layerIndex ((fs @ [f]) ! length fs) \<and>
        listed ((fs @ [f]) ! length fs) \<and>
        (\<forall>j<length (fs @ [f]). layerIndex ((fs @ [f]) ! j) \<le> layerIndex ((fs @ [f]) ! length fs)) \<and>
        (\<forall>j<length fs. layerIndex ((fs @ [f]) ! j) < layerIndex ((fs @ [f]) ! length fs))"
    using step lf below by (auto simp: nth_append less_Suc_eq)
  then show ?thesis
    unfolding loop_inv_def by blast
next
  case False
  have lower: "- 1 \<le> snd st" using inv by (rule loop_inv_lower)
  then have step: "priority_step f st = st"
    using False by (simp add: priority_step_eq)
  from inv show ?thesis
    unfolding loop_inv_def
  proof (elim disjE conjE exE)
    assume a: "fst st = None" "snd st = - 1" "\<forall>f\<in>set fs. \<not> listed f"
    have "\<not> listed f"
      using False a(2) layerIndex_ge [of f] by (simp add: layerIndex_unlisted [symmetric])
    then show "(fst (priority_step f st) = None \<and> snd (priority_step f st) = - 1 \<and>
           (\<forall>f\<in>set (fs @ [f]). \<not> listed f)) \<or>
          (\<exists>i<length (fs @ [f]). fst (priority_step f st) = Some ((fs @ [f]) ! i) \<and>
              snd (priority_step f st) = layerIndex ((fs @ [f]) ! i) \<and> listed ((fs @ [f]) ! i) \<and>
              (\<forall>j<length (fs @ [f]). layerIndex ((fs @ [f]) ! j) \<le> layerIndex ((fs @ [f]) ! i)) \<and>
              (\<forall>j<i. layerIndex ((fs @ [f]) ! j) < layerIndex ((fs @ [f]) ! i)))"
      using a step by simp
  next
    fix i
    assume b: "i < length fs" "fst st = Some (fs ! i)" "snd st = layerIndex (fs ! i)"
      "listed (fs ! i)" "\<forall>j<length fs. layerIndex (fs ! j) \<le> layerIndex (fs ! i)"
      "\<forall>j<i. layerIndex (fs ! j) < layerIndex (fs ! i)"
    have "i < length (fs @ [f]) \<and> fst (priority_step f st) = Some ((fs @ [f]) ! i) \<and>
              snd (priority_step f st) = layerIndex ((fs @ [f]) ! i) \<and> listed ((fs @ [f]) ! i) \<and>
              (\<forall>j<length (fs @ [f]). layerIndex ((fs @ [f]) ! j) \<le> layerIndex ((fs @ [f]) ! i)) \<and>
              (\<forall>j<i. layerIndex ((fs @ [f]) ! j) < layerIndex ((fs @ [f]) ! i))"
      using b step False by (auto simp: nth_append less_Suc_eq)
    then show "(fst (priority_step f st) = None \<and> snd (priority_step f st) = - 1 \<and>
           (\<forall>f\<in>set (fs @ [f]). \<not> listed f)) \<or>
          (\<exists>i<length (fs @ [f]). fst (priority_step f st) = Some ((fs @ [f]) ! i) \<and>
              snd (priority_step f st) = layerIndex ((fs @ [f]) ! i) \<and> listed ((fs @ [f]) ! i) \<and>
              (\<forall>j<length (fs @ [f]). layerIndex ((fs @ [f]) ! j) \<le> layerIndex ((fs @ [f]) ! i)) \<and>
              (\<forall>j<i. layerIndex ((fs @ [f]) ! j) < layerIndex ((fs @ [f]) ! i)))"
      by blast
  qed
qed

lemma loop_inv_loop: "loop_inv fs st \<Longrightarrow> loop_inv (fs @ gs) (priority_loop gs st)"
proof (induction gs arbitrary: fs st)
  case Nil
  then show ?case by simp
next
  case (Cons g gs)
  from Cons.prems have "loop_inv (fs @ [g]) (priority_step g st)"
    by (rule loop_inv_step)
  then have "loop_inv ((fs @ [g]) @ gs) (priority_loop gs (priority_step g st))"
    by (rule Cons.IH)
  then show ?case by simp
qed

lemma highestPriorityFeature_inv: "loop_inv fs (priority_loop fs (None, - 1))"
  using loop_inv_loop [OF loop_inv_init, of fs] by simp


lemma prefix_take_eq: "prefix xs ys = (take (length xs) ys = xs)"
  by (metis append_eq_conv_conj prefix_def take_is_prefix)

lemma js_includes_sublist: "js_includes s sub = sublist sub s"
  by (induction s) (simp_all add: sublist_Cons_right prefix_take_eq)

lemma split_from_no_sep:
  "\<not> js_includes s sep \<Longrightarrow> split_from sep cur s = [cur @ s]"
  by (induction s arbitrary: cur) simp_all

lemma split_from_at_sep:
  assumes "x \<noteq> y" "\<not> js_includes a [x, y]"
  shows "split_from [x, y] cur (a @ [x, y] @ b) = (cur @ a) # split_from [x, y] [] b"
  using assms(2)
proof (induction a arbitrary: cur)
  case Nil
  then show ?case by simp
next
  case (Cons c cs)
  then have here: "take 2 (c # cs) \<noteq> [x, y]" and rest: "\<not> js_includes cs [x, y]"
    by simp_all
  have "take 2 (c # (cs @ [x, y] @ b)) \<noteq> [x, y]"
  proof (cases cs)
    case Nil
    with assms(1) show ?thesis by auto
  next
    case (Cons c' cs')
    with here show ?thesis by simp
  qed
  then have ne: "\<not> ([x, y] \<noteq> [] \<and> take (length [x, y]) (c # (cs @ [x, y] @ b)) = [x, y])"
    by simp
  have "split_from [x, y] cur ((c # cs) @ [x, y] @ b)
      = split_from [x, y] cur (c # (cs @ [x, y] @ b))"
    by simp
  also have "\<dots> = split_from [x, y] (cur @ [c]) (cs @ [x, y] @ b)"
    by (simp only: split_from.simps(2) ne if_False)
  also have "\<dots> = ((cur @ [c]) @ cs) # split_from [x, y] [] b"
    using rest by (rule Cons.IH)
  finally show ?case by simp
qed

lemma comma_space: "js '', '' = [of_char CHR '','', of_char CHR '' '']"
  by (simp add: js_def)

lemma comma_neq_space: "(of_char CHR '','' :: 16 word) \<noteq> of_char CHR '' ''"
  by (simp add: of_char_word16_inj)

lemma js_split_last_first:
  assumes "\<not> js_includes a (js '', '')" "\<not> js_includes b (js '', '')"
  shows "js_split (a @ js '', '' @ b) (js '', '') = [a, b]"
proof -
  have "split_from (js '', '') [] (a @ js '', '' @ b) = ([] @ a) # split_from (js '', '') [] b"
    using assms(1) unfolding comma_space
    by (intro split_from_at_sep comma_neq_space)
  also have "split_from (js '', '') [] b = [[] @ b]"
    using assms(2) by (rule split_from_no_sep)
  finally show ?thesis
    by (simp add: js_split_def)
qed

lemma js_split_no_sep:
  "\<not> js_includes s (js '', '') \<Longrightarrow> js_split s (js '', '') = [s]"
  by (simp add: js_split_def split_from_no_sep)

section \<open>The district popup\<close>

lemma js_error_eq: "(e :: js_error) = TypeError"
  by (cases e)

lemma js_or_JStr_iff:
  "(\<exists>s. js_or v (JStr t) = JStr s) = stringOrFalsy v"
  by (cases v) (auto simp: js_or_def)

lemma js_or_truthy: "truthy w \<Longrightarrow> truthy (js_or v w)"
  by (simp add: js_or_def)

lemma acresField_total: "\<exists>t. acresField d v = Inr t"
proof (cases "truthy v")
  case True
  then show ?thesis by (cases v) (simp_all add: acresField_def)
next
  case False
  then show ?thesis by (simp add: acresField_def)
qed

lemma acresField_falsy: "\<not> truthy v \<Longrightarrow> acresField d v = Inr em_dash"
  by (simp add: acresField_def)

lemma split_fallback_name:
  "js_split (js ''Unknown Representative'') (js '', '') = [js ''Unknown Representative'']"
  by code_simp

lemma formattedRepresentativeName_JStr:
  "formattedRepresentativeName (JStr raw) =
     Inr (if length (js_split raw (js '', '')) = 2
          then js_split raw (js '', '') ! 1 @ js '' '' @ js_split raw (js '', '') ! 0
          else raw)"
proof (cases "raw = js ''Unknown Representative''")
  case True
  with split_fallback_name show ?thesis
    by (simp add: formattedRepresentativeName_def)
next
  case False
  then show ?thesis
    by (simp add: formattedRepresentativeName_def Let_def)
qed

lemma formattedRepresentativeName_throws:
  "(formattedRepresentativeName v = Inl TypeError) = (\<forall>s. v \<noteq> JStr s)"
  by (cases v) (simp_all add: formattedRepresentativeName_def Let_def)

lemma paddedDistrict_throws:
  "(paddedDistrict v = Inl TypeError) = (\<forall>s. v \<noteq> JStr s)"
  by (cases v) (simp_all add: paddedDistrict_def)

lemma padStart_short: "length d = 1 \<Longrightarrow> padStart d 2 (js ''0'') = js ''0'' @ d"
  by (simp add: padStart_def js_def)

lemma padStart_long: "2 \<le> length d \<Longrightarrow> padStart d 2 p = d"
  by (simp add: padStart_def)

lemma districtPopup_strings:
  assumes raw: "js_or (get_prop ps ''LISTING_NA'') (JStr (js ''Unknown Representative'')) = JStr raw"
    and d: "js_or (get_prop ps ''DISTRICT'') (JStr (js ''Unknown'')) = JStr d"
    and t: "acresField 3 (get_prop ps ''Acres'') = Inr t"
    and r: "acresField 0 (get_prop ps ''SUM_RoadlessAreasAcres'') = Inr r"
  shows "districtPopup ns ps =
     Inr \<lparr>districtNumberTxt = d,
          formattedNameTxt =
            js ''Rep. ''
            @ (if length (js_split raw (js '', '')) = 2
               then js_split raw (js '', '') ! 1 @ js '' '' @ js_split raw (js '', '') ! 0
               else raw)
            @ js '' ('' @ template ns (js_or (get_prop ps ''Party'') (JStr (js ''Unknown'')))
            @ en_dash @ js ''OR-'' @ padStart d 2 (js ''0'') @ js '')'',
          totalAcresTxt = t, roadlessAcresTxt = r\<rparr>"
  unfolding districtPopup_def Let_def raw d t r formattedRepresentativeName_JStr
  by (simp add: paddedDistrict_def)

lemma districtPopup_throws:
  "(districtPopup ns ps = Inl TypeError) =
     (\<not> stringOrFalsy (get_prop ps ''LISTING_NA'') \<or> \<not> stringOrFalsy (get_prop ps ''DISTRICT''))"
proof -
  obtain t where t: "acresField 3 (get_prop ps ''Acres'') = Inr t"
    using acresField_total by blast
  obtain r where r: "acresField 0 (get_prop ps ''SUM_RoadlessAreasAcres'') = Inr r"
    using acresField_total by blast
  let ?raw = "js_or (get_prop ps ''LISTING_NA'') (JStr (js ''Unknown Representative''))"
  let ?d = "js_or (get_prop ps ''DISTRICT'') (JStr (js ''Unknown''))"
  have "(districtPopup ns ps = Inl TypeError)
      = (formattedRepresentativeName ?raw = Inl TypeError \<or> paddedDistrict ?d = Inl TypeError)"
    unfolding districtPopup_def Let_def t r
    using js_error_eq by (auto split: sum.splits)
  also have "\<dots> = ((\<forall>s. ?raw \<noteq> JStr s) \<or> (\<forall>s. ?d \<noteq> JStr s))"
    by (simp only: formattedRepresentativeName_throws paddedDistrict_throws)
  also have "\<dots> = (\<not> stringOrFalsy (get_prop ps ''LISTING_NA'') \<or> \<not> stringOrFalsy (get_prop ps ''DISTRICT''))"
    using js_or_JStr_iff [of "get_prop ps ''LISTING_NA''" "js ''Unknown Representative''"]
      js_or_JStr_iff [of "get_prop ps ''DISTRICT''" "js ''Unknown''"]
    by auto
  finally show ?thesis .
qed






lemma isDistrictLayer_index: "isDistrictLayer f = (0 \<le> layerIndex f \<and> layerIndex f \<le> 1)"
proof (cases "layer_id f")
  case None
  then show ?thesis by (simp add: isDistrictLayer_def layerIndex_def)
next
  case (Some l)
  then show ?thesis
    by (auto simp: isDistrictLayer_def layerIndex_def indexOf_def layerPriority_def)
qed

lemma top_is_district:
  "(\<exists>g. highestPriorityFeature fs = Some g \<and> isDistrictLayer g) =
     ((\<exists>g\<in>set fs. isDistrictLayer g) \<and> (\<forall>g\<in>set fs. layerIndex g \<le> 1))"
proof
  assume "\<exists>g. highestPriorityFeature fs = Some g \<and> isDistrictLayer g"
  then obtain g where g: "highestPriorityFeature fs = Some g" "isDistrictLayer g" by blast
  from highestPriorityFeature_inv [of fs] g(1)
  obtain i where i: "i < length fs" "g = fs ! i" "\<forall>j<length fs. layerIndex (fs ! j) \<le> layerIndex (fs ! i)"
    unfolding loop_inv_def highestPriorityFeature_def by auto
  have "g \<in> set fs" using i by simp
  moreover have "\<forall>h\<in>set fs. layerIndex h \<le> 1"
  proof
    fix h assume "h \<in> set fs"
    then obtain j where "j < length fs" "h = fs ! j" by (auto simp: in_set_conv_nth)
    with i g(2) show "layerIndex h \<le> 1"
      by (fastforce simp: isDistrictLayer_index)
  qed
  ultimately show "(\<exists>g\<in>set fs. isDistrictLayer g) \<and> (\<forall>g\<in>set fs. layerIndex g \<le> 1)"
    using g(2) by blast
next
  assume a: "(\<exists>g\<in>set fs. isDistrictLayer g) \<and> (\<forall>g\<in>set fs. layerIndex g \<le> 1)"
  then obtain h where h: "h \<in> set fs" "isDistrictLayer h" by blast
  then have "listed h"
    by (simp add: isDistrictLayer_index layerIndex_listed)
  with h(1) highestPriorityFeature_inv [of fs]
  obtain i where i: "i < length fs" "highestPriorityFeature fs = Some (fs ! i)" "listed (fs ! i)"
    unfolding loop_inv_def highestPriorityFeature_def by auto
  have "fs ! i \<in> set fs" using i(1) by simp
  with a have "layerIndex (fs ! i) \<le> 1" by blast
  with i(3) have "isDistrictLayer (fs ! i)"
    by (simp add: isDistrictLayer_index layerIndex_listed)
  with i(2) show "\<exists>g. highestPriorityFeature fs = Some g \<and> isDistrictLayer g" by blast
qed

lemma districtPopup_opens:
  "stringOrFalsy (get_prop ps ''DISTRICT'') \<Longrightarrow> stringOrFalsy (get_prop ps ''LISTING_NA'')
     \<Longrightarrow> \<exists>p. districtPopup ns ps = Inr p"
  using districtPopup_throws [of ns ps] js_error_eq
  by (cases "districtPopup ns ps") auto

lemma example_district_props:
  "get_prop (properties example_district) ''DISTRICT'' = JStr (js ''4'')"
  "get_prop (properties example_district) ''LISTING_NA'' = JStr (js ''Smith, Jane'')"
  "get_prop (properties example_district) ''Party'' = JStr (js ''D'')"
  "get_prop (properties example_district) ''Acres'' = JNum (Fin 0)"
  "get_prop (properties example_district) ''SUM_RoadlessAreasAcres'' = JStr []"
  by (simp_all add: get_prop_def example_district_def example_feature_def)

lemma example_unnumbered_props:
  "get_prop (properties example_unnumbered_district) ''DISTRICT'' = JUndefined"
  "get_prop (properties example_unnumbered_district) ''LISTING_NA'' = JStr (js ''Smith, Jane'')"
  "get_prop (properties example_unnumbered_district) ''Party'' = JStr (js ''D'')"
  "get_prop (properties example_unnumbered_district) ''Acres'' = JUndefined"
  "get_prop (properties example_unnumbered_district) ''SUM_RoadlessAreasAcres'' = JUndefined"
  by (simp_all add: get_prop_def example_unnumbered_district_def example_feature_def)

lemma example_district_top:
  "highestPriorityFeature [example_district] = Some example_district"
  "isDistrictLayer example_district"
  by (simp_all add: highestPriorityFeature_def priority_step_def example_district_def
      example_feature_def indexOf_def layerPriority_def isDistrictLayer_def)

lemma example_unnumbered_top:
  "highestPriorityFeature [example_unnumbered_district] = Some example_unnumbered_district"
  "isDistrictLayer example_unnumbered_district"
  by (simp_all add: highestPriorityFeature_def priority_step_def example_unnumbered_district_def
      example_feature_def indexOf_def layerPriority_def isDistrictLayer_def)

lemma smith_jane:
  "js ''Smith, Jane'' = js ''Smith'' @ js '', '' @ js ''Jane''"
  "\<not> js_includes (js ''Smith'') (js '', '')"
  "\<not> js_includes (js ''Jane'') (js '', '')"
  by (simp_all add: js_def)

lemma smith_jane_split: "js_split (js ''Smith, Jane'') (js '', '') = [js ''Smith'', js ''Jane'']"
  using js_split_last_first [OF smith_jane(2) smith_jane(3)] by (simp only: smith_jane(1))

lemma example_unnumbered_popup:
  "districtPopup ns (properties example_unnumbered_district) =
     Inr \<lparr>districtNumberTxt = js ''Unknown'',
          formattedNameTxt = js ''Rep. Jane Smith (D'' @ en_dash @ js ''OR-Unknown)'',
          totalAcresTxt = em_dash, roadlessAcresTxt = em_dash\<rparr>"
proof -
  have p: "padStart (js ''Unknown'') 2 (js ''0'') = js ''Unknown''"
    by (simp add: padStart_long js_def)
  have "districtPopup ns (properties example_unnumbered_district) =
     Inr \<lparr>districtNumberTxt = js ''Unknown'',
          formattedNameTxt = js ''Rep. '' @ (js ''Jane'' @ js '' '' @ js ''Smith'') @ js '' (''
             @ js ''D'' @ en_dash @ js ''OR-'' @ js ''Unknown'' @ js '')'',
          totalAcresTxt = em_dash, roadlessAcresTxt = em_dash\<rparr>"
    using districtPopup_strings [of "properties example_unnumbered_district"
        "js ''Smith, Jane''" "js ''Unknown''" em_dash em_dash ns]
    by (simp add: example_unnumbered_props js_or_def acresField_falsy p smith_jane_split)
  then show ?thesis
    by (simp add: js_def)
qed

lemma getLayer_setPaintProperty [simp]:
  "getLayer (setPaintProperty l n v m) k = getLayer m k"
  by (simp add: getLayer_def setPaintProperty_def)

lemma zoom_setPaintProperty [simp]: "zoom (setPaintProperty l n v m) = zoom m"
  by (simp add: setPaintProperty_def)

lemma layers_setPaintProperty [simp]: "layers (setPaintProperty l n v m) = layers m"
  by (simp add: setPaintProperty_def)

lemma installed_setPaintProperty [simp]:
  "installed (setPaintProperty l n v m) l' n' = (if l' = l \<and> n' = n then Some v else installed m l' n')"
  by (simp add: installed_def setPaintProperty_def)

lemma handleZoomChange_stylingEffect: "handleZoomChange sel m = stylingEffect sel m"
  by (simp add: handleZoomChange_def stylingEffect_def Let_def)

lemma stylingEffect_zoom [simp]: "zoom (stylingEffect sel m) = zoom m"
  by (simp add: stylingEffect_def Let_def)

lemma stylingEffect_layers [simp]: "getLayer (stylingEffect sel m) k = getLayer m k"
  by (simp add: stylingEffect_def Let_def)

lemma stylingEffect_fill:
  "getLayer m ''congressional-districts-fill'' \<Longrightarrow>
   installed (stylingEffect sel m) ''congressional-districts-fill'' ''fill-opacity''
     = Some (if zoom m \<le> 8 \<and> truthy sel then highlight sel 0.4 0.1 else PConst 0.1)"
  by (simp add: stylingEffect_def Let_def)

lemma stylingEffect_line_opacity:
  "getLayer m ''congressional-districts-line'' \<Longrightarrow>
   installed (stylingEffect sel m) ''congressional-districts-line'' ''line-opacity''
     = Some (if zoom m \<le> 8 \<and> truthy sel then highlight sel 1.0 0.8 else PConst 0.8)"
  by (simp add: stylingEffect_def Let_def)

lemma stylingEffect_line_width:
  "getLayer m ''congressional-districts-line'' \<Longrightarrow>
   installed (stylingEffect sel m) ''congressional-districts-line'' ''line-width''
     = Some (if zoom m \<le> 8 \<and> truthy sel then highlight sel 2.5 1.5 else PConst 1.5)"
  by (simp add: stylingEffect_def Let_def)

lemma paintAt_highlight:
  "truthy sel \<Longrightarrow>
   paintAt (highlight sel a b) ps = (if ps (js ''DISTRICT'') = Some sel then a else b)"
  by (cases "ps (js ''DISTRICT'')") (auto simp: paintAt_def highlight_def)

lemma paintAt_const: "paintAt (PConst c) ps = c"
  by (simp add: paintAt_def)

section \<open>Formatted numbers hold no dash\<close>











lemma isFinite_div_by [simp]: "isFinite (div_by n c) = isFinite n"
  by (cases n) simp_all

lemma isFinite_times_by [simp]: "isFinite (times_by n c) = isFinite n"
  by (cases n) simp_all

lemma isFinite_Fin: "isFinite n = (\<exists>x. n = Fin x)"
  by (cases n) simp_all

section \<open>Trails\<close>



lemma example_map_layers:
  "getLayer (example_map z) ''congressional-districts-fill''"
  "getLayer (example_map z) ''congressional-districts-line''"
  "zoom (example_map z) = z"
  by (simp_all add: example_map_def getLayer_def)

lemma example_trail_props:
  "source example_trail = js ''oregon-trails''"
  "get_prop (properties example_trail) ''TRAIL_NAME'' = JStr (js ''EAGLE CREEK'')"
  "get_prop (properties example_trail) ''NAME'' = JUndefined"
  "get_prop (properties example_trail) ''TRAIL'' = JUndefined"
  "get_prop (properties example_trail) ''DESCRIPTION'' = JUndefined"
  "get_prop (properties example_trail) ''GIS_MILES'' = JNum (Fin 12.3)"
  by (simp_all add: get_prop_def example_trail_def example_feature_def)





lemma trailIdentity_probe:
  assumes "\<not> truthy (get_prop ps ''TRAIL_NAME'') \<or>
           (\<exists>s. get_prop ps ''TRAIL_NAME'' = JStr s \<and> \<not> js_includes s (js ''PACIFIC CREST''))"
  shows "trailIdentity (js ''oregon-trails'') ps =
     Inr (js_or (get_prop ps ''TRAIL_NAME'')
            (js_or (get_prop ps ''NAME'') (js_or (get_prop ps ''TRAIL'') (JStr (js ''Oregon Trail'')))),
          js_or (get_prop ps ''DESCRIPTION'') (JStr (js ''A trail in Oregon'')))"
  using assms by (auto simp: trailIdentity_def Let_def)

lemma eagle_creek: "\<not> js_includes (js ''EAGLE CREEK'') (js ''PACIFIC CREST'')"
  by (simp add: js_def)

lemma pacific_crest_nst:
  "js_includes (js ''PACIFIC CREST NATIONAL SCENIC TRAIL'') (js ''PACIFIC CREST'')"
  by (simp add: js_def)

lemma lower_case_crest: "\<not> js_includes (js ''Pacific Crest Trail'') (js ''PACIFIC CREST'')"
  by (simp add: js_def)

lemma selection_null_or_truthy:
  "selectedDistrictId (fst (generalClickHandler ns fs c)) = JNull \<or>
   truthy (selectedDistrictId (fst (generalClickHandler ns fs c)))"
  by (cases "highestPriorityFeature fs") (auto simp: generalClickHandler_def js_or_def Let_def)


section \<open>The claims\<close>

text \<open>
  C1 (as amended). The click handler resolves the top-priority feature among the
  features under the point. If that feature's layer is one of the two district layers,
  the selection becomes the feature's \<open>DISTRICT\<close> property when that value is truthy and
  null when it is missing or falsy; the district popup is opened when \<open>DISTRICT\<close> and
  \<open>LISTING_NA\<close> are strings or falsy, and the popup code throws otherwise. If no feature
  is resolved or the resolved feature is of another layer, the selection becomes null
  and no district popup is opened. The resolved feature is of a district layer exactly
  when some district feature is under the point and no feature of a layer above the
  district layers is. The selection the handler sets is always null or a truthy value.
\<close>

theorem generalClickHandler_selection:
  "(highestPriorityFeature fs = Some f \<and> isDistrictLayer f \<longrightarrow>
      selectedDistrictId (fst (generalClickHandler ns fs c))
        = (if truthy (get_prop (properties f) ''DISTRICT'')
           then get_prop (properties f) ''DISTRICT'' else JNull) \<and>
      (stringOrFalsy (get_prop (properties f) ''DISTRICT'') \<and>
       stringOrFalsy (get_prop (properties f) ''LISTING_NA'') \<longrightarrow>
         (\<exists>p. districtPopup ns (properties f) = Inr p \<and>
              snd (generalClickHandler ns fs c) = Inr (Some p))) \<and>
      (\<not> (stringOrFalsy (get_prop (properties f) ''DISTRICT'') \<and>
          stringOrFalsy (get_prop (properties f) ''LISTING_NA'')) \<longrightarrow>
         snd (generalClickHandler ns fs c) = Inl TypeError)) \<and>
   ((\<forall>g. highestPriorityFeature fs = Some g \<longrightarrow> \<not> isDistrictLayer g) \<longrightarrow>
      selectedDistrictId (fst (generalClickHandler ns fs c)) = JNull \<and>
      snd (generalClickHandler ns fs c) = Inr None) \<and>
   ((\<exists>g. highestPriorityFeature fs = Some g \<and> isDistrictLayer g) \<longleftrightarrow>
      (\<exists>g\<in>set fs. isDistrictLayer g) \<and> (\<forall>g\<in>set fs. layerIndex g \<le> 1)) \<and>
   (selectedDistrictId (fst (generalClickHandler ns fs c)) = JNull \<or>
    truthy (selectedDistrictId (fst (generalClickHandler ns fs c))))"
proof (intro conjI impI)
  assume a: "highestPriorityFeature fs = Some f \<and> isDistrictLayer f"
  then show "selectedDistrictId (fst (generalClickHandler ns fs c))
        = (if truthy (get_prop (properties f) ''DISTRICT'')
           then get_prop (properties f) ''DISTRICT'' else JNull)"
    by (simp add: generalClickHandler_def js_or_def Let_def)
  {
    assume "stringOrFalsy (get_prop (properties f) ''DISTRICT'') \<and>
       stringOrFalsy (get_prop (properties f) ''LISTING_NA'')"
    then obtain p where "districtPopup ns (properties f) = Inr p"
      using districtPopup_opens by blast
    with a show "\<exists>p. districtPopup ns (properties f) = Inr p \<and>
              snd (generalClickHandler ns fs c) = Inr (Some p)"
      by (simp add: generalClickHandler_def Let_def)
  }
  {
    assume "\<not> (stringOrFalsy (get_prop (properties f) ''DISTRICT'') \<and>
          stringOrFalsy (get_prop (properties f) ''LISTING_NA''))"
    then have "districtPopup ns (properties f) = Inl TypeError"
      using districtPopup_throws [of ns "properties f"] by blast
    with a show "snd (generalClickHandler ns fs c) = Inl TypeError"
      by (simp add: generalClickHandler_def Let_def)
  }
next
  assume n: "\<forall>g. highestPriorityFeature fs = Some g \<longrightarrow> \<not> isDistrictLayer g"
  then show "selectedDistrictId (fst (generalClickHandler ns fs c)) = JNull"
    by (cases "highestPriorityFeature fs") (simp_all add: generalClickHandler_def)
  from n show "snd (generalClickHandler ns fs c) = Inr None"
    by (cases "highestPriorityFeature fs") (simp_all add: generalClickHandler_def)
next
  show "(\<exists>g. highestPriorityFeature fs = Some g \<and> isDistrictLayer g) \<longleftrightarrow>
      (\<exists>g\<in>set fs. isDistrictLayer g) \<and> (\<forall>g\<in>set fs. layerIndex g \<le> 1)"
    by (rule top_is_district)
next
  show "selectedDistrictId (fst (generalClickHandler ns fs c)) = JNull \<or>
    truthy (selectedDistrictId (fst (generalClickHandler ns fs c)))"
    by (rule selection_null_or_truthy)
qed

theorem generalClickHandler_selection_witness:
  "highestPriorityFeature [example_district] = Some example_district \<and>
   isDistrictLayer example_district \<and>
   selectedDistrictId
     (fst (generalClickHandler (\<lambda>n. []) [example_district] \<lparr>selectedDistrictId = JNull\<rparr>))
     = JStr (js ''4'') \<and>
   (\<exists>p. snd (generalClickHandler (\<lambda>n. []) [example_district] \<lparr>selectedDistrictId = JNull\<rparr>)
        = Inr (Some p)) \<and>
   selectedDistrictId
     (fst (generalClickHandler (\<lambda>n. []) [example_feature ''pct-line'' ''pct'' []]
             \<lparr>selectedDistrictId = JStr (js ''4'')\<rparr>))
     = JNull \<and>
   snd (generalClickHandler (\<lambda>n. []) [example_feature ''pct-line'' ''pct'' []]
          \<lparr>selectedDistrictId = JStr (js ''4'')\<rparr>)
     = Inr None"
proof -
  let ?ns = "\<lambda>n :: jsnum. [] :: jsstring"
  let ?c = "\<lparr>selectedDistrictId = JNull\<rparr>"
  let ?c4 = "\<lparr>selectedDistrictId = JStr (js ''4'')\<rparr>"
  let ?p = "example_feature ''pct-line'' ''pct'' []"
  have sf: "stringOrFalsy (get_prop (properties example_district) ''DISTRICT'')"
      "stringOrFalsy (get_prop (properties example_district) ''LISTING_NA'')"
      "truthy (get_prop (properties example_district) ''DISTRICT'')"
    by (simp_all add: example_district_props)
  have ptop: "highestPriorityFeature [?p] = Some ?p" "\<not> isDistrictLayer ?p"
    by (simp_all add: highestPriorityFeature_def priority_step_def
        example_feature_def indexOf_def layerPriority_def isDistrictLayer_def)
  from generalClickHandler_selection [of "[example_district]" example_district ?ns ?c]
    example_district_top sf
  have sel: "selectedDistrictId (fst (generalClickHandler ?ns [example_district] ?c)) = JStr (js ''4'')"
    and pop: "\<exists>p. snd (generalClickHandler ?ns [example_district] ?c) = Inr (Some p)"
    by (auto simp: example_district_props)
  from generalClickHandler_selection [of "[?p]" ?p ?ns ?c4] ptop
  have "selectedDistrictId (fst (generalClickHandler ?ns [?p] ?c4)) = JNull \<and>
      snd (generalClickHandler ?ns [?p] ?c4) = Inr None"
    by simp
  with example_district_top sel pop show ?thesis
    by simp
qed

text \<open>
  C1 as stated fails: the only feature under the point is of the layer
  \<open>congressional-districts-fill\<close> and has no \<open>DISTRICT\<close> property. The handler opens the
  district popup, with "Unknown" for the number, and sets the selection to null.
\<close>

theorem district_click_unselected_counterexample:
  "highestPriorityFeature [example_unnumbered_district] = Some example_unnumbered_district \<and>
   isDistrictLayer example_unnumbered_district \<and>
   selectedDistrictId
     (fst (generalClickHandler (\<lambda>n. []) [example_unnumbered_district]
             \<lparr>selectedDistrictId = JStr (js ''4'')\<rparr>))
     = JNull \<and>
   snd (generalClickHandler (\<lambda>n. []) [example_unnumbered_district]
          \<lparr>selectedDistrictId = JStr (js ''4'')\<rparr>)
     = Inr (Some \<lparr>districtNumberTxt = js ''Unknown'',
                   formattedNameTxt = js ''Rep. Jane Smith (D'' @ en_dash @ js ''OR-Unknown)'',
                   totalAcresTxt = em_dash, roadlessAcresTxt = em_dash\<rparr>)"
  by (simp add: generalClickHandler_def example_unnumbered_top example_unnumbered_popup
      example_unnumbered_props js_or_def Let_def)

text \<open>
  C2. On a map that has the two district layers, the selection effect and the zoom
  listener install the same three paint values, and these depend on the selection and
  the zoom only. Above zoom 8, or with no selection, they are the constants 0.1, 0.8
  and 1.5. At zoom 8 or below with the selection \<open>d\<close> they are the expressions that
  compare the \<open>DISTRICT\<close> property with \<open>d\<close>, which give 0.4, 1.0 and 2.5 on a feature
  whose \<open>DISTRICT\<close> is \<open>d\<close> and 0.1, 0.8 and 1.5 on every other feature.
\<close>

theorem district_paint_derivation:
  assumes "getLayer m ''congressional-districts-fill''"
    and "getLayer m ''congressional-districts-line''"
  shows "handleZoomChange sel m = stylingEffect sel m \<and>
    (8 < zoom m \<or> \<not> truthy sel \<longrightarrow>
       installed (stylingEffect sel m) ''congressional-districts-fill'' ''fill-opacity''
         = Some (PConst 0.1) \<and>
       installed (stylingEffect sel m) ''congressional-districts-line'' ''line-opacity''
         = Some (PConst 0.8) \<and>
       installed (stylingEffect sel m) ''congressional-districts-line'' ''line-width''
         = Some (PConst 1.5)) \<and>
    (zoom m \<le> 8 \<and> truthy sel \<longrightarrow>
       installed (stylingEffect sel m) ''congressional-districts-fill'' ''fill-opacity''
         = Some (PCaseEq (js ''DISTRICT'') sel 0.4 0.1) \<and>
       installed (stylingEffect sel m) ''congressional-districts-line'' ''line-opacity''
         = Some (PCaseEq (js ''DISTRICT'') sel 1.0 0.8) \<and>
       installed (stylingEffect sel m) ''congressional-districts-line'' ''line-width''
         = Some (PCaseEq (js ''DISTRICT'') sel 2.5 1.5) \<and>
       (\<forall>ps a b. paintAt (PCaseEq (js ''DISTRICT'') sel a b) ps
           = (if ps (js ''DISTRICT'') = Some sel then a else b))) \<and>
    (\<forall>ps c. paintAt (PConst c) ps = c)"
proof (intro conjI impI allI)
  show "handleZoomChange sel m = stylingEffect sel m"
    by (rule handleZoomChange_stylingEffect)
next
  assume "8 < zoom m \<or> \<not> truthy sel"
  then have c: "\<not> (zoom m \<le> 8 \<and> truthy sel)" by auto
  show "installed (stylingEffect sel m) ''congressional-districts-fill'' ''fill-opacity''
         = Some (PConst 0.1)"
    using stylingEffect_fill [OF assms(1), of sel] c by simp
  show "installed (stylingEffect sel m) ''congressional-districts-line'' ''line-opacity''
         = Some (PConst 0.8)"
    using stylingEffect_line_opacity [OF assms(2), of sel] c by simp
  show "installed (stylingEffect sel m) ''congressional-districts-line'' ''line-width''
         = Some (PConst 1.5)"
    using stylingEffect_line_width [OF assms(2), of sel] c by simp
next
  assume c: "zoom m \<le> 8 \<and> truthy sel"
  show "installed (stylingEffect sel m) ''congressional-districts-fill'' ''fill-opacity''
         = Some (PCaseEq (js ''DISTRICT'') sel 0.4 0.1)"
    using stylingEffect_fill [OF assms(1), of sel] c by (simp add: highlight_def)
  show "installed (stylingEffect sel m) ''congressional-districts-line'' ''line-opacity''
         = Some (PCaseEq (js ''DISTRICT'') sel 1.0 0.8)"
    using stylingEffect_line_opacity [OF assms(2), of sel] c by (simp add: highlight_def)
  show "installed (stylingEffect sel m) ''congressional-districts-line'' ''line-width''
         = Some (PCaseEq (js ''DISTRICT'') sel 2.5 1.5)"
    using stylingEffect_line_width [OF assms(2), of sel] c by (simp add: highlight_def)
  fix ps a b
  show "paintAt (PCaseEq (js ''DISTRICT'') sel a b) ps
           = (if ps (js ''DISTRICT'') = Some sel then a else b)"
    using paintAt_highlight [of sel a b ps] c by (simp add: highlight_def)
next
  fix ps c
  show "paintAt (PConst c) ps = c"
    by (rule paintAt_const)
qed

theorem district_paint_derivation_witness:
  "getLayer (example_map 8) ''congressional-districts-fill'' \<and>
   getLayer (example_map 8) ''congressional-districts-line'' \<and>
   zoom (example_map 8) \<le> 8 \<and> truthy (JStr (js ''4'')) \<and>
   installed (stylingEffect (JStr (js ''4'')) (example_map 8))
       ''congressional-districts-fill'' ''fill-opacity''
     = Some (PCaseEq (js ''DISTRICT'') (JStr (js ''4'')) 0.4 0.1) \<and>
   paintAt (PCaseEq (js ''DISTRICT'') (JStr (js ''4'')) 0.4 0.1) (properties example_district) = 0.4 \<and>
   paintAt (PCaseEq (js ''DISTRICT'') (JStr (js ''4'')) 0.4 0.1)
       (properties example_unnumbered_district) = 0.1 \<and>
   8 < zoom (example_map 8.01) \<and>
   installed (handleZoomChange (JStr (js ''4'')) (example_map 8.01))
       ''congressional-districts-fill'' ''fill-opacity''
     = Some (PConst 0.1) \<and>
   installed (stylingEffect JNull (example_map 5))
       ''congressional-districts-line'' ''line-width''
     = Some (PConst 1.5)"
proof -
  let ?d = "JStr (js ''4'')"
  have d4: "properties example_district (js ''DISTRICT'') = Some ?d"
    by (simp add: example_district_def example_feature_def)
  have d0: "properties example_unnumbered_district (js ''DISTRICT'') \<noteq> Some ?d"
    by (simp add: example_unnumbered_district_def example_feature_def)
  have z: "zoom (example_map 8) \<le> 8" "truthy ?d" "8 < zoom (example_map 8.01)" "\<not> truthy JNull"
    by (simp_all add: example_map_layers)
  note at8 = district_paint_derivation
    [OF example_map_layers(1) [of 8] example_map_layers(2) [of 8], of ?d]
  note above = district_paint_derivation
    [OF example_map_layers(1) [of "8.01"] example_map_layers(2) [of "8.01"], of ?d]
  note unsel = district_paint_derivation
    [OF example_map_layers(1) [of 5] example_map_layers(2) [of 5], of JNull]
  from at8 z have i8: "installed (stylingEffect ?d (example_map 8))
       ''congressional-districts-fill'' ''fill-opacity''
     = Some (PCaseEq (js ''DISTRICT'') ?d 0.4 0.1)"
    and ev: "\<forall>ps a b. paintAt (PCaseEq (js ''DISTRICT'') ?d a b) ps
           = (if ps (js ''DISTRICT'') = Some ?d then a else b)"
    by blast+
  from ev d4 have e4: "paintAt (PCaseEq (js ''DISTRICT'') ?d 0.4 0.1) (properties example_district) = 0.4"
    by simp
  from ev d0 have e0: "paintAt (PCaseEq (js ''DISTRICT'') ?d 0.4 0.1)
       (properties example_unnumbered_district) = 0.1"
    by simp
  from above z have ia: "installed (handleZoomChange ?d (example_map 8.01))
       ''congressional-districts-fill'' ''fill-opacity'' = Some (PConst 0.1)"
    by simp
  from unsel z have iu: "installed (stylingEffect JNull (example_map 5))
       ''congressional-districts-line'' ''line-width'' = Some (PConst 1.5)"
    by simp
  from example_map_layers(1,2) [of 8] z i8 e4 e0 ia iu show ?thesis
    by simp
qed

text \<open>
  C3 (as amended). For every list of features that holds at least one feature of a
  listed layer, the resolver returns the feature whose layer has the greatest index in
  the fixed order of five; among features of that index the first in input order wins.
  In particular, of a \<open>roadless-fill\<close> feature (index 2) and a \<open>pct-line\<close> feature
  (index 4) the \<open>pct-line\<close> feature is returned, in either input order.
\<close>

theorem highestPriorityFeature_first_maximum:
  "((\<exists>f\<in>set fs. listed f) \<longrightarrow>
      (\<exists>i<length fs. highestPriorityFeature fs = Some (fs ! i) \<and>
         (\<forall>j<length fs. layerIndex (fs ! j) \<le> layerIndex (fs ! i)) \<and>
         (\<forall>j<i. layerIndex (fs ! j) < layerIndex (fs ! i)))) \<and>
   (layer_id r = Some (js ''roadless-fill'') \<and> layer_id p = Some (js ''pct-line'') \<longrightarrow>
      layerIndex r = 2 \<and> layerIndex p = 4 \<and>
      highestPriorityFeature [r, p] = Some p \<and> highestPriorityFeature [p, r] = Some p)"
proof (intro conjI impI)
  assume "\<exists>f\<in>set fs. listed f"
  with highestPriorityFeature_inv [of fs]
  show "\<exists>i<length fs. highestPriorityFeature fs = Some (fs ! i) \<and>
         (\<forall>j<length fs. layerIndex (fs ! j) \<le> layerIndex (fs ! i)) \<and>
         (\<forall>j<i. layerIndex (fs ! j) < layerIndex (fs ! i))"
    unfolding loop_inv_def highestPriorityFeature_def by blast
next
  assume a: "layer_id r = Some (js ''roadless-fill'') \<and> layer_id p = Some (js ''pct-line'')"
  then show r: "layerIndex r = 2" and p: "layerIndex p = 4"
    by (simp_all add: layerIndex_def indexOf_def layerPriority_def)
  show "highestPriorityFeature [r, p] = Some p"
    by (simp add: highestPriorityFeature_def priority_step_eq r p)
  show "highestPriorityFeature [p, r] = Some p"
    by (simp add: highestPriorityFeature_def priority_step_eq r p)
qed

theorem highestPriorityFeature_first_maximum_witness:
  "(\<exists>f\<in>set [example_feature ''roadless-fill'' ''roadless-src'' [],
              example_feature ''pct-line'' ''pct'' [],
              example_feature ''pct-line'' ''pct'' [(''N'', JNull)]]. listed f) \<and>
   highestPriorityFeature
     [example_feature ''roadless-fill'' ''roadless-src'' [],
      example_feature ''pct-line'' ''pct'' [],
      example_feature ''pct-line'' ''pct'' [(''N'', JNull)]]
     = Some (example_feature ''pct-line'' ''pct'' []) \<and>
   layer_id (example_feature ''roadless-fill'' ''roadless-src'' []) = Some (js ''roadless-fill'') \<and>
   layer_id (example_feature ''pct-line'' ''pct'' []) = Some (js ''pct-line'') \<and>
   highestPriorityFeature
     [example_feature ''roadless-fill'' ''roadless-src'' [], example_feature ''pct-line'' ''pct'' []]
     = Some (example_feature ''pct-line'' ''pct'' [])"
proof -
  let ?r = "example_feature ''roadless-fill'' ''roadless-src'' []"
  let ?p = "example_feature ''pct-line'' ''pct'' []"
  let ?q = "example_feature ''pct-line'' ''pct'' [(''N'', JNull)]"
  have lr: "layer_id ?r = Some (js ''roadless-fill'')" and lp: "layer_id ?p = Some (js ''pct-line'')"
    by (simp_all add: example_feature_def)
  have ex: "\<exists>f\<in>set [?r, ?p, ?q]. listed f"
    by (simp add: listed_def example_feature_def layerPriority_def)
  have ir: "layerIndex ?r = 2" and ip: "layerIndex ?p = 4" and iq: "layerIndex ?q = 4"
    by (simp_all add: layerIndex_def example_feature_def indexOf_def layerPriority_def)
  from highestPriorityFeature_first_maximum [of "[?r, ?p, ?q]" ?r ?p] ex lr lp
  obtain i where i: "i < length [?r, ?p, ?q]"
      "highestPriorityFeature [?r, ?p, ?q] = Some ([?r, ?p, ?q] ! i)"
      "\<forall>j<length [?r, ?p, ?q]. layerIndex ([?r, ?p, ?q] ! j) \<le> layerIndex ([?r, ?p, ?q] ! i)"
      "\<forall>j<i. layerIndex ([?r, ?p, ?q] ! j) < layerIndex ([?r, ?p, ?q] ! i)"
    and two: "highestPriorityFeature [?r, ?p] = Some ?p"
    by blast
  from i(1) have "i = 0 \<or> i = 1 \<or> i = 2" by auto
  then have "i = 1"
  proof (elim disjE)
    assume "i = 0"
    with i(3) have "layerIndex ?p \<le> layerIndex ?r" by (auto dest: spec [of _ 1])
    with ir ip show ?thesis by simp
  next
    assume "i = 2"
    with i(4) have "layerIndex ?p < layerIndex ?q" by (auto dest: spec [of _ 1])
    with ip iq show ?thesis by simp
  qed
  with i(2) have "highestPriorityFeature [?r, ?p, ?q] = Some ?p" by simp
  with ex lr lp two show ?thesis by simp
qed

text \<open>
  C3 as stated fails: a click point with two features, one without a layer and one of
  the basemap layer \<open>water\<close>, is a non-empty list for which the resolver returns null.
\<close>

theorem highestPriorityFeature_nonempty_counterexample:
  "[\<lparr>layer_id = None, source = js ''composite'', properties = Map.empty, geometry = ()\<rparr>,
    example_feature ''water'' ''composite'' []] \<noteq> [] \<and>
   highestPriorityFeature
     [\<lparr>layer_id = None, source = js ''composite'', properties = Map.empty, geometry = ()\<rparr>,
      example_feature ''water'' ''composite'' []] = None"
  by (simp add: highestPriorityFeature_def priority_step_def example_feature_def
      indexOf_def layerPriority_def)

text \<open>
  C4 (as amended). A feature whose layer is absent from the priority order has index
  \<open>-1\<close>. It is never the resolved feature: the resolver returns null exactly when no
  feature under the point is of a listed layer, and a feature it returns is one of the
  input features and of a listed layer.
\<close>

theorem unlisted_layer_never_resolved:
  "(layerIndex f = - 1 \<longleftrightarrow> \<not> listed f) \<and>
   (highestPriorityFeature fs = None \<longleftrightarrow> (\<forall>g\<in>set fs. \<not> listed g)) \<and>
   (\<forall>g. highestPriorityFeature fs = Some g \<longrightarrow> g \<in> set fs \<and> listed g)"
proof -
  have inv: "loop_inv fs (priority_loop fs (None, - 1))"
    by (rule highestPriorityFeature_inv)
  have none: "highestPriorityFeature fs = None \<longleftrightarrow> (\<forall>g\<in>set fs. \<not> listed g)"
    using inv unfolding loop_inv_def highestPriorityFeature_def
    by (metis nth_mem option.distinct(1))
  have some: "g \<in> set fs \<and> listed g" if "highestPriorityFeature fs = Some g" for g
    using inv that unfolding loop_inv_def highestPriorityFeature_def
    by (metis nth_mem option.distinct(1) option.inject)
  from none some layerIndex_unlisted [of f] show ?thesis
    by blast
qed

theorem unlisted_layer_never_resolved_witness:
  "\<not> listed (example_feature ''roadless-line'' ''roadless-src'' []) \<and>
   \<not> listed (example_feature ''water'' ''composite'' []) \<and>
   highestPriorityFeature
     [example_feature ''roadless-line'' ''roadless-src'' [],
      example_feature ''water'' ''composite'' []] = None \<and>
   highestPriorityFeature
     [example_feature ''roadless-line'' ''roadless-src'' [],
      example_feature ''roadless-fill'' ''roadless-src'' []]
     = Some (example_feature ''roadless-fill'' ''roadless-src'' []) \<and>
   listed (example_feature ''roadless-fill'' ''roadless-src'' [])"
proof -
  let ?u = "example_feature ''roadless-line'' ''roadless-src'' []"
  let ?w = "example_feature ''water'' ''composite'' []"
  let ?r = "example_feature ''roadless-fill'' ''roadless-src'' []"
  have un: "\<not> listed ?u" "\<not> listed ?w"
    by (simp_all add: listed_def example_feature_def layerPriority_def)
  have res: "highestPriorityFeature [?u, ?r] = Some ?r"
    by (simp add: highestPriorityFeature_def priority_step_def example_feature_def
        indexOf_def layerPriority_def)
  from unlisted_layer_never_resolved [of ?u "[?u, ?w]"] un
  have none: "highestPriorityFeature [?u, ?w] = None" by simp
  from unlisted_layer_never_resolved [of ?u "[?u, ?r]"] res
  have "listed ?r" by blast
  with un none res show ?thesis by blast
qed

text \<open>
  C4 as stated fails: the only feature under the point is of the layer
  \<open>roadless-line\<close>, which is not in the order, and the resolver returns null, not that
  feature.
\<close>

theorem unlisted_sole_feature_counterexample:
  "\<not> listed (example_feature ''roadless-line'' ''roadless-src'' []) \<and>
   highestPriorityFeature [example_feature ''roadless-line'' ''roadless-src'' []] = None"
  by (simp add: highestPriorityFeature_def priority_step_def example_feature_def
      listed_def indexOf_def layerPriority_def)

text \<open>
  C5. The popup-close handler sets the selection to null whatever it was before; run on
  a state that is already unselected it changes nothing. The handler is a total
  function, it has no failing branch.
\<close>

theorem popupClose_unselects:
  "selectedDistrictId (popupClose c) = JNull \<and>
   popupClose \<lparr>selectedDistrictId = JNull\<rparr> = \<lparr>selectedDistrictId = JNull\<rparr> \<and>
   popupClose (popupClose c) = popupClose c"
  by (simp add: popupClose_def)







text \<open>
  C8. When \<open>LISTING_NA\<close> and \<open>DISTRICT\<close> are strings or falsy (the fallbacks are
  "Unknown Representative" and "Unknown"), the popup is built and its label is
  "Rep. " name " (" party, U+2013, "OR-" padded district ")". A raw name of the form
  last ", " first, with no further ", " in either part, is reordered to first " " last;
  in general the name is reordered exactly when the split has two parts, and a raw name
  without ", " is passed through. A district string of fewer than 2 code units gets a
  "0" in front, a longer one is unchanged.
\<close>

theorem representative_label:
  assumes raw: "js_or (get_prop ps ''LISTING_NA'') (JStr (js ''Unknown Representative'')) = JStr raw"
    and d: "js_or (get_prop ps ''DISTRICT'') (JStr (js ''Unknown'')) = JStr d"
  shows "\<exists>p name party padded.
      districtPopup ns ps = Inr p \<and>
      formattedNameTxt p
        = js ''Rep. '' @ name @ js '' ('' @ party @ en_dash @ js ''OR-'' @ padded @ js '')'' \<and>
      (\<forall>last first. raw = last @ js '', '' @ first \<and> \<not> js_includes last (js '', '') \<and>
           \<not> js_includes first (js '', '') \<longrightarrow> name = first @ js '' '' @ last) \<and>
      (length (js_split raw (js '', '')) = 2 \<longrightarrow>
         name = js_split raw (js '', '') ! 1 @ js '' '' @ js_split raw (js '', '') ! 0) \<and>
      (length (js_split raw (js '', '')) \<noteq> 2 \<longrightarrow> name = raw) \<and>
      (\<not> js_includes raw (js '', '') \<longrightarrow> name = raw) \<and>
      party = template ns (js_or (get_prop ps ''Party'') (JStr (js ''Unknown''))) \<and>
      (\<forall>s. get_prop ps ''Party'' = JStr s \<and> s \<noteq> [] \<longrightarrow> party = s) \<and>
      (\<not> truthy (get_prop ps ''Party'') \<longrightarrow> party = js ''Unknown'') \<and>
      (length d < 2 \<longrightarrow> padded = js ''0'' @ d) \<and>
      (2 \<le> length d \<longrightarrow> padded = d)"
proof -
  let ?sp = "js_split raw (js '', '')"
  let ?name = "if length ?sp = 2 then ?sp ! 1 @ js '' '' @ ?sp ! 0 else raw"
  let ?party = "template ns (js_or (get_prop ps ''Party'') (JStr (js ''Unknown'')))"
  let ?padded = "padStart d 2 (js ''0'')"
  obtain t where t: "acresField 3 (get_prop ps ''Acres'') = Inr t"
    using acresField_total by blast
  obtain r where r: "acresField 0 (get_prop ps ''SUM_RoadlessAreasAcres'') = Inr r"
    using acresField_total by blast
  let ?p = "\<lparr>districtNumberTxt = d,
          formattedNameTxt = js ''Rep. '' @ ?name @ js '' ('' @ ?party
            @ en_dash @ js ''OR-'' @ ?padded @ js '')'',
          totalAcresTxt = t, roadlessAcresTxt = r\<rparr>"
  have popup: "districtPopup ns ps = Inr ?p"
    using raw d t r by (rule districtPopup_strings)
  have label: "formattedNameTxt ?p
      = js ''Rep. '' @ ?name @ js '' ('' @ ?party @ en_dash @ js ''OR-'' @ ?padded @ js '')''"
    by simp
  have reorder: "\<forall>last first. raw = last @ js '', '' @ first \<and> \<not> js_includes last (js '', '') \<and>
           \<not> js_includes first (js '', '') \<longrightarrow> ?name = first @ js '' '' @ last"
    by (auto simp: js_split_last_first)
  have two: "length ?sp = 2 \<longrightarrow> ?name = ?sp ! 1 @ js '' '' @ ?sp ! 0"
    by simp
  have other: "length ?sp \<noteq> 2 \<longrightarrow> ?name = raw"
    by simp
  have nosep: "\<not> js_includes raw (js '', '') \<longrightarrow> ?name = raw"
    by (simp add: js_split_no_sep)
  have party_str: "\<forall>s. get_prop ps ''Party'' = JStr s \<and> s \<noteq> [] \<longrightarrow> ?party = s"
    by (simp add: js_or_def)
  have party_none: "\<not> truthy (get_prop ps ''Party'') \<longrightarrow> ?party = js ''Unknown''"
    by (simp add: js_or_def)
  have "d \<noteq> []"
    using d by (cases "truthy (get_prop ps ''DISTRICT'')") (auto simp: js_or_def)
  then have short: "length d < 2 \<longrightarrow> ?padded = js ''0'' @ d"
    by (cases d) (auto simp: padStart_short)
  have long: "2 \<le> length d \<longrightarrow> ?padded = d"
    by (simp add: padStart_long)
  from popup label reorder two other nosep party_str party_none short long
  show ?thesis
    by (intro exI [of _ ?p] exI [of _ ?name] exI [of _ ?party] exI [of _ ?padded] conjI refl)
qed

theorem representative_label_witness:
  "js_or (get_prop (properties example_district) ''LISTING_NA'')
      (JStr (js ''Unknown Representative'')) = JStr (js ''Smith, Jane'') \<and>
   js_or (get_prop (properties example_district) ''DISTRICT'') (JStr (js ''Unknown''))
      = JStr (js ''4'') \<and>
   (\<exists>p. districtPopup (\<lambda>n. []) (properties example_district) = Inr p \<and>
        formattedNameTxt p = js ''Rep. Jane Smith (D'' @ en_dash @ js ''OR-04)'')"
proof -
  let ?ps = "properties example_district"
  have raw: "js_or (get_prop ?ps ''LISTING_NA'') (JStr (js ''Unknown Representative''))
      = JStr (js ''Smith, Jane'')"
    and d: "js_or (get_prop ?ps ''DISTRICT'') (JStr (js ''Unknown'')) = JStr (js ''4'')"
    by (simp_all add: example_district_props js_or_def)
  from representative_label [OF raw d, of "\<lambda>n. []"]
  obtain p name party padded where
    p: "districtPopup (\<lambda>n. []) ?ps = Inr p"
    and label: "formattedNameTxt p
        = js ''Rep. '' @ name @ js '' ('' @ party @ en_dash @ js ''OR-'' @ padded @ js '')''"
    and reorder: "\<forall>last first. js ''Smith, Jane'' = last @ js '', '' @ first \<and>
        \<not> js_includes last (js '', '') \<and> \<not> js_includes first (js '', '')
        \<longrightarrow> name = first @ js '' '' @ last"
    and party: "\<forall>s. get_prop ?ps ''Party'' = JStr s \<and> s \<noteq> [] \<longrightarrow> party = s"
    and short: "length (js ''4'') < 2 \<longrightarrow> padded = js ''0'' @ js ''4''"
    by blast
  from reorder smith_jane have "name = js ''Jane'' @ js '' '' @ js ''Smith''"
    by blast
  moreover from party have "party = js ''D''"
    by (simp add: example_district_props)
  moreover from short have "padded = js ''0'' @ js ''4''"
    by (simp add: js_def)
  ultimately have "formattedNameTxt p = js ''Rep. Jane Smith (D'' @ en_dash @ js ''OR-04)''"
    using label by (simp add: js_def)
  with p raw d show ?thesis
    by blast
qed

text \<open>
  C9. For the \<open>pct\<close> source the name and description are the fixed pair, whatever the
  properties. For the \<open>oregon-trails\<close> source with a \<open>TRAIL_NAME\<close> that is a string or
  falsy: if \<open>TRAIL_NAME\<close> contains "PACIFIC CREST" the result is the section pair;
  otherwise the name is the first truthy one of \<open>TRAIL_NAME\<close>, \<open>NAME\<close>, \<open>TRAIL\<close>, else
  "Oregon Trail", and the description is \<open>DESCRIPTION\<close>, else "A trail in Oregon".
  Containment is of the exact code units, so it is case-sensitive.
\<close>

theorem trail_identity:
  "trailIdentity (js ''pct'') ps =
     Inr (JStr (js ''Pacific Crest Trail - Oregon''),
          JStr (js ''A long-distance hiking trail spanning the length of Oregon'')) \<and>
   (get_prop ps ''TRAIL_NAME'' = JStr s \<and> js_includes s (js ''PACIFIC CREST'') \<longrightarrow>
      trailIdentity (js ''oregon-trails'') ps =
        Inr (JStr (js ''Pacific Crest Trail - Oregon Section''),
             JStr (js ''A long-distance hiking trail spanning from Canada to Mexico''))) \<and>
   (\<not> truthy (get_prop ps ''TRAIL_NAME'') \<or>
    (get_prop ps ''TRAIL_NAME'' = JStr s \<and> \<not> js_includes s (js ''PACIFIC CREST'')) \<longrightarrow>
      trailIdentity (js ''oregon-trails'') ps =
        Inr (if truthy (get_prop ps ''TRAIL_NAME'') then get_prop ps ''TRAIL_NAME''
             else if truthy (get_prop ps ''NAME'') then get_prop ps ''NAME''
             else if truthy (get_prop ps ''TRAIL'') then get_prop ps ''TRAIL''
             else JStr (js ''Oregon Trail''),
             if truthy (get_prop ps ''DESCRIPTION'') then get_prop ps ''DESCRIPTION''
             else JStr (js ''A trail in Oregon''))) \<and>
   (js_includes s sub \<longleftrightarrow> (\<exists>before after. s = before @ sub @ after)) \<and>
   \<not> js_includes (js ''Pacific Crest Trail'') (js ''PACIFIC CREST'')"
proof (intro conjI impI)
  show "trailIdentity (js ''pct'') ps =
     Inr (JStr (js ''Pacific Crest Trail - Oregon''),
          JStr (js ''A long-distance hiking trail spanning the length of Oregon''))"
    by (simp add: trailIdentity_def)
next
  assume a: "get_prop ps ''TRAIL_NAME'' = JStr s \<and> js_includes s (js ''PACIFIC CREST'')"
  then have "s \<noteq> []" by auto
  with a show "trailIdentity (js ''oregon-trails'') ps =
        Inr (JStr (js ''Pacific Crest Trail - Oregon Section''),
             JStr (js ''A long-distance hiking trail spanning from Canada to Mexico''))"
    by (simp add: trailIdentity_def Let_def)
next
  assume "\<not> truthy (get_prop ps ''TRAIL_NAME'') \<or>
    (get_prop ps ''TRAIL_NAME'' = JStr s \<and> \<not> js_includes s (js ''PACIFIC CREST''))"
  then have "\<not> truthy (get_prop ps ''TRAIL_NAME'') \<or>
      (\<exists>s. get_prop ps ''TRAIL_NAME'' = JStr s \<and> \<not> js_includes s (js ''PACIFIC CREST''))"
    by blast
  then show "trailIdentity (js ''oregon-trails'') ps =
        Inr (if truthy (get_prop ps ''TRAIL_NAME'') then get_prop ps ''TRAIL_NAME''
             else if truthy (get_prop ps ''NAME'') then get_prop ps ''NAME''
             else if truthy (get_prop ps ''TRAIL'') then get_prop ps ''TRAIL''
             else JStr (js ''Oregon Trail''),
             if truthy (get_prop ps ''DESCRIPTION'') then get_prop ps ''DESCRIPTION''
             else JStr (js ''A trail in Oregon''))"
    by (simp only: trailIdentity_probe js_or_def)
next
  show "js_includes s sub \<longleftrightarrow> (\<exists>before after. s = before @ sub @ after)"
    by (simp add: js_includes_sublist sublist_def)
next
  show "\<not> js_includes (js ''Pacific Crest Trail'') (js ''PACIFIC CREST'')"
    by (rule lower_case_crest)
qed

theorem trail_identity_witness:
  "js_includes (js ''PACIFIC CREST NATIONAL SCENIC TRAIL'') (js ''PACIFIC CREST'') \<and>
   trailIdentity (js ''oregon-trails'')
       [js ''TRAIL_NAME'' \<mapsto> JStr (js ''PACIFIC CREST NATIONAL SCENIC TRAIL'')]
     = Inr (JStr (js ''Pacific Crest Trail - Oregon Section''),
            JStr (js ''A long-distance hiking trail spanning from Canada to Mexico'')) \<and>
   trailIdentity (js ''pct'')
       [js ''TRAIL_NAME'' \<mapsto> JStr (js ''PACIFIC CREST NATIONAL SCENIC TRAIL'')]
     = Inr (JStr (js ''Pacific Crest Trail - Oregon''),
            JStr (js ''A long-distance hiking trail spanning the length of Oregon'')) \<and>
   \<not> js_includes (js ''EAGLE CREEK'') (js ''PACIFIC CREST'') \<and>
   trailIdentity (js ''oregon-trails'') (properties example_trail)
     = Inr (JStr (js ''EAGLE CREEK''), JStr (js ''A trail in Oregon'')) \<and>
   trailIdentity (js ''oregon-trails'') [js ''NAME'' \<mapsto> JStr (js ''Timberline'')]
     = Inr (JStr (js ''Timberline''), JStr (js ''A trail in Oregon''))"
proof -
  let ?pc = "[js ''TRAIL_NAME'' \<mapsto> JStr (js ''PACIFIC CREST NATIONAL SCENIC TRAIL'')]"
  let ?tl = "[js ''NAME'' \<mapsto> JStr (js ''Timberline'')]"
  have g: "get_prop ?pc ''TRAIL_NAME'' = JStr (js ''PACIFIC CREST NATIONAL SCENIC TRAIL'')"
    by (simp add: get_prop_def)
  have t: "get_prop ?tl ''TRAIL_NAME'' = JUndefined" "get_prop ?tl ''NAME'' = JStr (js ''Timberline'')"
    "get_prop ?tl ''DESCRIPTION'' = JUndefined"
    by (simp_all add: get_prop_def)
  from trail_identity [of ?pc "js ''PACIFIC CREST NATIONAL SCENIC TRAIL''"] g pacific_crest_nst
  have a: "trailIdentity (js ''oregon-trails'') ?pc
     = Inr (JStr (js ''Pacific Crest Trail - Oregon Section''),
            JStr (js ''A long-distance hiking trail spanning from Canada to Mexico''))"
    and b: "trailIdentity (js ''pct'') ?pc
     = Inr (JStr (js ''Pacific Crest Trail - Oregon''),
            JStr (js ''A long-distance hiking trail spanning the length of Oregon''))"
    by blast+
  from trail_identity [of "properties example_trail" "js ''EAGLE CREEK''"] eagle_creek
  have c: "trailIdentity (js ''oregon-trails'') (properties example_trail)
     = Inr (JStr (js ''EAGLE CREEK''), JStr (js ''A trail in Oregon''))"
    by (simp add: example_trail_props)
  from trail_identity [of ?tl "[]"] t
  have d: "trailIdentity (js ''oregon-trails'') ?tl
     = Inr (JStr (js ''Timberline''), JStr (js ''A trail in Oregon''))"
    by simp
  from pacific_crest_nst a b eagle_creek c d show ?thesis
    by blast
qed



end
